theory Spec2Isabelle
  imports Complex_Main "HOL-Library.Word"
begin

section \<open>Values shared by the hooks\<close>

text \<open>
  A \<open>Blob\<close> is an immutable byte sequence with a declared media type; its \<open>size\<close> is
  the number of bytes. \<open>new Blob(parts, {type})\<close> concatenates the parts in the order
  of the array.
\<close>

record blob =
  blob_data :: "8 word list"
  blob_type :: string

definition blob_size :: "blob \<Rightarrow> nat" where
  "blob_size b = length (blob_data b)"

definition new_Blob :: "blob list \<Rightarrow> string \<Rightarrow> blob" where
  "new_Blob parts ty = \<lparr>blob_data = concat (map blob_data parts), blob_type = ty\<rparr>"

text \<open>A thrown JavaScript value: an \<open>Error\<close> (or \<open>DOMException\<close>) with its message.\<close>

datatype error = Error string

text \<open>
  The settlement of the promise an \<open>async\<close> function (or an explicit
  \<open>new Promise\<close>) returns: resolved with a value, rejected with the thrown error, or
  never settled.
\<close>

datatype 'a promise = Resolved 'a | Rejected error | Pending

section \<open>useAnimationRecorder\<close>

text \<open>
  The hook keeps \<open>isRecording\<close> (React state), \<open>mediaRecorderRef\<close> and
  \<open>chunksRef\<close> (refs). The stored \<open>MediaRecorder\<close> is modelled by the two attributes
  the hook reads or writes: the platform's \<open>state\<close> attribute and the
  \<open>frameInterval\<close> property that \<open>startRecording\<close> attaches to it.

  The browser state the hook acts on is part of the record: the identifiers of the
  running \<open>setInterval\<close> timers (the sampling ticks), the next timer identifier
  (identifiers are positive), and what was written with \<open>console.error\<close>.
  The callbacks are read from the latest render, so \<open>stopRecording\<close> sees the
  current value of \<open>isRecording\<close>.
\<close>

datatype recording_state = Inactive | Recording

record media_recorder =
  rec_state :: recording_state
  frameInterval :: nat

record recorder_hook =
  isRecording :: bool
  mediaRecorderRef :: "media_recorder option"
  chunksRef :: "blob list"
  intervals :: "nat list"
  nextTimer :: nat
  console :: "error list"

definition initial_recorder :: recorder_hook where
  "initial_recorder =
     \<lparr>isRecording = False, mediaRecorderRef = None, chunksRef = [],
      intervals = [], nextTimer = 1, console = []\<rparr>"

definition setInterval :: "recorder_hook \<Rightarrow> nat \<times> recorder_hook" where
  "setInterval s =
     (nextTimer s, s\<lparr>intervals := nextTimer s # intervals s, nextTimer := Suc (nextTimer s)\<rparr>)"

definition clearInterval :: "nat \<Rightarrow> recorder_hook \<Rightarrow> recorder_hook" where
  "clearInterval i s = s\<lparr>intervals := removeAll i (intervals s)\<rparr>"

definition console_error :: "error \<Rightarrow> recorder_hook \<Rightarrow> recorder_hook" where
  "console_error e s = s\<lparr>console := console s @ [e]\<rparr>"

text \<open>
  What the platform does during one call of \<open>startRecording\<close>: whether
  \<open>canvas.getContext("2d")\<close> yields a context, whether the background image loads
  (\<open>onerror\<close> rejects the awaited promise; only the variant that loads the image asks),
  whether \<open>new MediaRecorder\<close> throws (an unsupported \<open>mimeType\<close>) and whether
  \<open>mediaRecorder.start()\<close> throws. The other platform calls do not throw.
\<close>

record start_env =
  context2d :: bool
  backgroundImage_onerror :: "error option"
  MediaRecorder_throws :: "error option"
  start_throws :: "error option"

text \<open>
  \<open>mediaRecorder.ondataavailable\<close>: every recorder the hook creates gets the same
  handler, which appends to the array \<open>chunksRef.current\<close> holds at the time of the
  event.
\<close>

definition ondataavailable :: "blob \<Rightarrow> recorder_hook \<Rightarrow> recorder_hook" where
  "ondataavailable event_data s =
     (if blob_size event_data > 0 then s\<lparr>chunksRef := chunksRef s @ [event_data]\<rparr> else s)"

definition deliver :: "blob list \<Rightarrow> recorder_hook \<Rightarrow> recorder_hook" where
  "deliver events s = foldl (\<lambda>s' b. ondataavailable b s') s events"

text \<open>
  The part of \<open>startRecording\<close> that follows the preparation of the drawing: the
  stream is captured, the tick is scheduled with \<open>setInterval\<close>, the recorder is
  constructed, the chunk array is replaced by an empty one, the handlers are set, the
  recorder is started and stored, \<open>isRecording\<close> is set, and the timer identifier is
  attached to the recorder. A throw leaves the effects made before it in place.
\<close>

definition start_session :: "start_env \<Rightarrow> recorder_hook \<Rightarrow> (error + unit) \<times> recorder_hook" where
  "start_session env s =
     (let (frameInterval, s1) = setInterval s in
      case MediaRecorder_throws env of
        Some e \<Rightarrow> (Inl e, s1)
      | None \<Rightarrow>
          let s2 = s1\<lparr>chunksRef := []\<rparr> in
          case start_throws env of
            Some e \<Rightarrow> (Inl e, s2)
          | None \<Rightarrow>
              (Inr (),
               s2\<lparr>mediaRecorderRef := Some \<lparr>rec_state = Recording, frameInterval = frameInterval\<rparr>,
                  isRecording := True\<rparr>))"

text \<open>
  The \<open>try\<close> block of \<open>startRecording\<close> in \<open>useAnimationRecorder.ts\<close> (the variant
  that draws the \<open>img\<close> child): without a 2d context it returns at once.
\<close>

definition startRecording_try :: "start_env \<Rightarrow> recorder_hook \<Rightarrow> (error + unit) \<times> recorder_hook" where
  "startRecording_try env s =
     (if \<not> context2d env then (Inr (), s) else start_session env s)"

text \<open>The \<open>catch\<close> clause logs the error and falls through: the promise resolves.\<close>

definition startRecording :: "start_env \<Rightarrow> recorder_hook \<Rightarrow> unit promise \<times> recorder_hook" where
  "startRecording env s =
     (case startRecording_try env s of
        (Inl e, s') \<Rightarrow> (Resolved (), console_error e s')
      | (Inr u, s') \<Rightarrow> (Resolved u, s'))"

text \<open>
  The variant of \<open>startRecording\<close> that reads the background image from the
  element's computed style and awaits its \<open>onload\<close> before anything is scheduled.
\<close>

definition startRecording_bg_try :: "start_env \<Rightarrow> recorder_hook \<Rightarrow> (error + unit) \<times> recorder_hook" where
  "startRecording_bg_try env s =
     (if \<not> context2d env then (Inr (), s)
      else case backgroundImage_onerror env of
             Some e \<Rightarrow> (Inl e, s)
           | None \<Rightarrow> start_session env s)"

definition startRecording_bg :: "start_env \<Rightarrow> recorder_hook \<Rightarrow> unit promise \<times> recorder_hook" where
  "startRecording_bg env s =
     (case startRecording_bg_try env s of
        (Inl e, s') \<Rightarrow> (Resolved (), console_error e s')
      | (Inr u, s') \<Rightarrow> (Resolved u, s'))"

text \<open>
  \<open>stopRecording\<close> (the same text in every variant of the hook). Without a stored
  recorder, or with \<open>isRecording\<close> false, it resolves with \<open>null\<close>. Otherwise it
  replaces \<open>onstop\<close> and calls \<open>stop()\<close>. On a recording recorder the platform then
  delivers the data gathered so far (\<open>remaining\<close>, through \<open>ondataavailable\<close>) and
  fires \<open>stop\<close>: the new handler builds the blob, empties the array, clears
  \<open>isRecording\<close>, clears the timer whose identifier is truthy, and resolves. On an
  inactive recorder \<open>stop()\<close> does nothing, no event follows and the promise stays
  pending.
\<close>

definition stopRecording :: "blob list \<Rightarrow> recorder_hook \<Rightarrow> blob option promise \<times> recorder_hook" where
  "stopRecording remaining s =
     (case mediaRecorderRef s of
        None \<Rightarrow> (Resolved None, s)
      | Some r \<Rightarrow>
          if \<not> isRecording s then (Resolved None, s)
          else if rec_state r = Inactive then (Pending, s)
          else
            let s1 = deliver remaining s;
                b = new_Blob (chunksRef s1) ''video/webm'';
                s2 = s1\<lparr>chunksRef := [], isRecording := False,
                        mediaRecorderRef := Some (r\<lparr>rec_state := Inactive\<rparr>)\<rparr>;
                s3 = (if frameInterval r \<noteq> 0 then clearInterval (frameInterval r) s2 else s2)
            in (Resolved (Some b), s3))"

section \<open>useMp4Converter\<close>

text \<open>
  The transcoding engine is the library class \<open>FFmpeg\<close>. An instance owns a
  virtual file system, a map from paths to contents: \<open>writeFile\<close> stores a file and
  \<open>readFile\<close> throws on a path that is absent. \<open>exec\<close> resolves with the command's
  exit code, whatever it is, and rejects only when the engine itself fails; while it
  runs the instance emits \<open>progress\<close> events. What a command does to the files and
  which progress fractions it emits is the library's business and a parameter here, as
  is the outcome of fetching and loading the pinned core.
\<close>

type_synonym vfs = "string \<Rightarrow> 8 word list option"

datatype exec_result = Exec_throws error | Exec_returns int vfs

record engine =
  load_throws :: "error option"
  exec :: "string list \<Rightarrow> vfs \<Rightarrow> real list \<times> exec_result"

text \<open>
  The hook's \<open>ffmpegRef\<close> holds the loaded instance, named by the number of
  instances constructed before it; \<open>files\<close> is the file system of that instance.
  \<open>instances\<close> counts the \<open>new FFmpeg()\<close> made so far, one per run of the
  initialisation. \<open>progressLog\<close> lists every value given to \<open>setProgress\<close>, oldest
  first: the values the hook reports.
\<close>

record mp4_converter =
  ffmpegRef :: "nat option"
  isConverting :: bool
  progress :: int
  progressLog :: "int list"
  files :: vfs
  instances :: nat

definition initial_converter :: mp4_converter where
  "initial_converter =
     \<lparr>ffmpegRef = None, isConverting = False, progress = 0, progressLog = [],
      files = (\<lambda>path. None), instances = 0\<rparr>"

definition setIsConverting :: "bool \<Rightarrow> mp4_converter \<Rightarrow> mp4_converter" where
  "setIsConverting v s = s\<lparr>isConverting := v\<rparr>"

definition setProgress :: "int \<Rightarrow> mp4_converter \<Rightarrow> mp4_converter" where
  "setProgress v s = s\<lparr>progress := v, progressLog := progressLog s @ [v]\<rparr>"

text \<open>\<open>Math.round\<close>: the nearest integer, a tie going up.\<close>

definition Math_round :: "real \<Rightarrow> int" where
  "Math_round x = \<lfloor>x + 1 / 2\<rfloor>"

text \<open>The listener registered with \<open>ffmpeg.on("progress", ...)\<close>.\<close>

definition on_progress :: "real \<Rightarrow> mp4_converter \<Rightarrow> mp4_converter" where
  "on_progress p s = setProgress (Math_round (p * 100)) s"

text \<open>
  \<open>load\<close>: a stored instance is returned as it is. Otherwise a new instance is
  constructed, the listener is registered and the core is loaded; only when that
  succeeds is the instance stored.
\<close>

definition load :: "error option \<Rightarrow> mp4_converter \<Rightarrow> (error + nat) \<times> mp4_converter" where
  "load outcome s =
     (case ffmpegRef s of
        Some ffmpeg \<Rightarrow> (Inr ffmpeg, s)
      | None \<Rightarrow>
          let ffmpeg = instances s;
              s1 = s\<lparr>instances := Suc (instances s)\<rparr>
          in case outcome of
               Some e \<Rightarrow> (Inl e, s1)
             | None \<Rightarrow> (Inr ffmpeg, s1\<lparr>ffmpegRef := Some ffmpeg, files := (\<lambda>path. None)\<rparr>))"

definition writeFile :: "string \<Rightarrow> 8 word list \<Rightarrow> mp4_converter \<Rightarrow> mp4_converter" where
  "writeFile path contents s = s\<lparr>files := (files s)(path \<mapsto> contents)\<rparr>"

definition readFile :: "string \<Rightarrow> mp4_converter \<Rightarrow> error + 8 word list" where
  "readFile path s =
     (case files s path of
        None \<Rightarrow> Inl (Error ''ErrnoError: FS error'')
      | Some contents \<Rightarrow> Inr contents)"

definition transcode_args :: "string list" where
  "transcode_args =
     [''-i'', ''input.webm'', ''-c:v'', ''libx264'', ''-preset'', ''ultrafast'',
      ''-pix_fmt'', ''yuv420p'', ''-movflags'', ''+faststart'', ''output.mp4'']"

text \<open>The \<open>try\<close> block of \<open>convertWebMToMp4\<close>.\<close>

definition convert_try :: "engine \<Rightarrow> blob \<Rightarrow> mp4_converter \<Rightarrow> (error + blob) \<times> mp4_converter" where
  "convert_try eng b s =
     (case load (load_throws eng) s of
        (Inl e, s1) \<Rightarrow> (Inl e, s1)
      | (Inr ffmpeg, s1) \<Rightarrow>
          let s2 = writeFile ''input.webm'' (blob_data b) s1;
              (signals, result) = exec eng transcode_args (files s2);
              s3 = foldl (\<lambda>s' p. on_progress p s') s2 signals
          in case result of
               Exec_throws e \<Rightarrow> (Inl e, s3)
             | Exec_returns code fs \<Rightarrow>
                 let s4 = s3\<lparr>files := fs\<rparr> in
                 case readFile ''output.mp4'' s4 of
                   Inl e \<Rightarrow> (Inl e, s4)
                 | Inr data \<Rightarrow> (Inr \<lparr>blob_data = data, blob_type = ''video/mp4''\<rparr>, s4))"

text \<open>
  \<open>convertWebMToMp4\<close>: the two setters, the \<open>try\<close> block, and the \<open>finally\<close>
  clause, which runs on both exits and lets the error through.
\<close>

definition convertWebMToMp4 :: "engine \<Rightarrow> blob \<Rightarrow> mp4_converter \<Rightarrow> blob promise \<times> mp4_converter" where
  "convertWebMToMp4 eng b s =
     (let s1 = setProgress 0 (setIsConverting True s);
          (r, s2) = convert_try eng b s1;
          s3 = setIsConverting False s2
      in (case r of Inl e \<Rightarrow> Rejected e | Inr mp4 \<Rightarrow> Resolved mp4, s3))"

text \<open>The values reported between two states of the hook.\<close>

definition reported :: "mp4_converter \<Rightarrow> mp4_converter \<Rightarrow> int list" where
  "reported s s' = drop (length (progressLog s)) (progressLog s')"


section \<open>The page\<close>

text \<open>
  Of the page component: the message (a JavaScript string, a sequence of UTF-16 code
  units), the recorded clip, the converter hook, and the effects of the handlers: the
  toasts shown, the files handed to \<open>downloadRecording\<close> with their names, and the
  console.
\<close>

datatype toast = Toast_error string | Toast_info string | Toast_success string

record page =
  text_st :: "16 word list"
  videoBlob :: "blob option"
  converter :: mp4_converter
  toasts :: "toast list"
  downloads :: "(blob \<times> string) list"
  page_console :: "error list"

definition maxChars :: nat where
  "maxChars = 200"

definition initial_page :: page where
  "initial_page =
     \<lparr>text_st = [], videoBlob = None, converter = initial_converter,
      toasts = [], downloads = [], page_console = []\<rparr>"

text \<open>The \<open>onChange\<close> handler of the message field: \<open>value.slice(0, maxChars)\<close>.\<close>

definition onChange :: "16 word list \<Rightarrow> page \<Rightarrow> page" where
  "onChange target_value p = p\<lparr>text_st := take maxChars target_value\<rparr>"

definition show_toast :: "toast \<Rightarrow> page \<Rightarrow> page" where
  "show_toast t p = p\<lparr>toasts := toasts p @ [t]\<rparr>"

definition downloadRecording :: "blob \<Rightarrow> string \<Rightarrow> page \<Rightarrow> page" where
  "downloadRecording b filename p = p\<lparr>downloads := downloads p @ [(b, filename)]\<rparr>"

text \<open>\<open>toISOString().replace(/[:.]/g, "-")\<close>, given the ISO string.\<close>

definition timestamp :: "string \<Rightarrow> string" where
  "timestamp iso_string = map (\<lambda>c. if c = CHR '':'' \<or> c = CHR ''.'' then CHR ''-'' else c) iso_string"

text \<open>A number in a template literal: decimal digits, a minus sign when negative.\<close>

fun digits :: "nat \<Rightarrow> string" where
  "digits n =
     (if n < 10 then [''0123456789'' ! n]
      else digits (n div 10) @ [''0123456789'' ! (n mod 10)])"

declare digits.simps [simp del]

definition template_number :: "int \<Rightarrow> string" where
  "template_number i = (if i < 0 then CHR ''-'' # digits (nat (- i)) else digits (nat i))"

text \<open>
  \<open>handleDownload\<close>. \<open>videoBlob\<close> and \<open>progress\<close> are the values of the render the
  handler belongs to; \<open>iso_string\<close> is the ISO string of the one \<open>new Date()\<close> the call
  makes.
\<close>

definition handleDownload :: "engine \<Rightarrow> string \<Rightarrow> page \<Rightarrow> page" where
  "handleDownload eng iso_string p =
     (case videoBlob p of
        None \<Rightarrow> show_toast (Toast_error ''No video available. Generate the animation first.'') p
      | Some vb \<Rightarrow>
          let p1 = show_toast
                     (Toast_info (''Converting to MP4... '' @ template_number (progress (converter p)) @ ''%'')) p;
              (r, c) = convertWebMToMp4 eng vb (converter p1);
              p2 = p1\<lparr>converter := c\<rparr>
          in case r of
               Resolved mp4 \<Rightarrow>
                 show_toast (Toast_success ''Download ready!'')
                   (downloadRecording mp4 (''typewriter-animation-'' @ timestamp iso_string @ ''.mp4'') p2)
             | Rejected e \<Rightarrow>
                 let p3 = show_toast (Toast_error ''MP4 conversion failed. Downloading WebM.'')
                            (p2\<lparr>page_console := page_console p2 @ [e]\<rparr>)
                 in (case videoBlob p of
                       Some original \<Rightarrow>
                         downloadRecording original (''typewriter-animation-'' @ timestamp iso_string @ ''.webm'') p3
                     | None \<Rightarrow> p3)
             | Pending \<Rightarrow> p2)"


section \<open>Concrete inputs\<close>

text \<open>A platform on which every call of \<open>startRecording\<close> succeeds.\<close>

definition env_ok :: start_env where
  "env_ok =
     \<lparr>context2d = True, backgroundImage_onerror = None,
      MediaRecorder_throws = None, start_throws = None\<rparr>"

text \<open>The same platform, but the background image does not load.\<close>

definition env_no_image :: start_env where
  "env_no_image = env_ok\<lparr>backgroundImage_onerror := Some (Error ''image load failed'')\<rparr>"

definition clip_a :: blob where
  "clip_a = \<lparr>blob_data = [26, 69, 223, 163], blob_type = ''video/webm;codecs=vp9''\<rparr>"

definition clip_b :: blob where
  "clip_b = \<lparr>blob_data = [31, 67, 182, 117, 1], blob_type = ''video/webm;codecs=vp9''\<rparr>"

definition clip_empty :: blob where
  "clip_empty = \<lparr>blob_data = [], blob_type = ''video/webm''\<rparr>"

text \<open>
  An engine that loads, and whose command behaves as the transcoder does on these two
  kinds of input: a non-empty \<open>input.webm\<close> is converted (here: copied behind a
  four-byte header), \<open>output.mp4\<close> is written, two progress fractions are emitted and
  the exit code is 0; an empty or absent \<open>input.webm\<close> is refused with exit code 1
  and the files are left as they are.
\<close>

definition engine_a :: engine where
  "engine_a =
     \<lparr>load_throws = None,
      exec = (\<lambda>args fs.
        case fs ''input.webm'' of
          Some (x # xs) \<Rightarrow> ([1 / 2, 1], Exec_returns 0 (fs(''output.mp4'' \<mapsto> [102, 116, 121, 112] @ x # xs)))
        | _ \<Rightarrow> ([], Exec_returns 1 fs))\<rparr>"

text \<open>An engine whose core cannot be fetched.\<close>

definition engine_unloadable :: engine where
  "engine_unloadable = engine_a\<lparr>load_throws := Some (Error ''failed to import ffmpeg-core.js'')\<rparr>"

section \<open>Properties of the recorder\<close>

lemma chunksRef_deliver:
  "chunksRef (deliver events s) = chunksRef s @ filter (\<lambda>b. blob_size b > 0) events"
  unfolding deliver_def
  by (induction events arbitrary: s) (simp_all add: ondataavailable_def)

lemma isRecording_deliver: "isRecording (deliver events s) = isRecording s"
  unfolding deliver_def
  by (induction events arbitrary: s) (simp_all add: ondataavailable_def)

lemma mediaRecorderRef_deliver: "mediaRecorderRef (deliver events s) = mediaRecorderRef s"
  unfolding deliver_def
  by (induction events arbitrary: s) (simp_all add: ondataavailable_def)

lemma start_session_ok:
  "MediaRecorder_throws env = None \<Longrightarrow> start_throws env = None \<Longrightarrow>
   start_session env s =
     (Inr (), s\<lparr>intervals := nextTimer s # intervals s, nextTimer := Suc (nextTimer s),
               chunksRef := [],
               mediaRecorderRef := Some \<lparr>rec_state = Recording, frameInterval = nextTimer s\<rparr>,
               isRecording := True\<rparr>)"
  by (simp add: start_session_def setInterval_def)

lemma startRecording_ok:
  "context2d env \<Longrightarrow> MediaRecorder_throws env = None \<Longrightarrow> start_throws env = None \<Longrightarrow>
   startRecording env s =
     (Resolved (), s\<lparr>intervals := nextTimer s # intervals s, nextTimer := Suc (nextTimer s),
               chunksRef := [],
               mediaRecorderRef := Some \<lparr>rec_state = Recording, frameInterval = nextTimer s\<rparr>,
               isRecording := True\<rparr>)"
  by (simp add: startRecording_def startRecording_try_def start_session_ok)

lemma startRecording_resolves: "fst (startRecording env s) = Resolved ()"
  by (simp add: startRecording_def split: prod.splits sum.splits)

lemma stopRecording_recording:
  assumes "isRecording s" "mediaRecorderRef s = Some r" "rec_state r = Recording"
  shows "fst (stopRecording remaining s) =
           Resolved (Some (new_Blob (chunksRef s @ filter (\<lambda>b. blob_size b > 0) remaining) ''video/webm''))"
    and "isRecording (snd (stopRecording remaining s)) = False"
    and "chunksRef (snd (stopRecording remaining s)) = []"
  using assms
  by (simp_all add: stopRecording_def Let_def chunksRef_deliver clearInterval_def)

text \<open>
  C6. When no session is recording (no recorder is stored, or \<open>isRecording\<close> is
  false), \<open>stopRecording\<close> resolves with \<open>null\<close>, raises nothing and leaves the whole
  state of the hook as it was.
\<close>

theorem stopRecording_idle:
  "mediaRecorderRef s = None \<or> \<not> isRecording s \<Longrightarrow>
   stopRecording remaining s = (Resolved None, s)"
  by (auto simp: stopRecording_def split: option.splits)

theorem stopRecording_idle_witness:
  "(mediaRecorderRef initial_recorder = None \<or> \<not> isRecording initial_recorder) \<and>
   stopRecording [clip_a] initial_recorder = (Resolved None, initial_recorder)"
  using stopRecording_idle [of initial_recorder "[clip_a]"]
  by (simp add: initial_recorder_def)

text \<open>
  C1. In a session whose start succeeded, \<open>stopRecording\<close> resolves with one blob: the
  bytes of the non-empty chunks delivered since the start (those delivered while
  recording, then those the recorder hands over on \<open>stop()\<close>), concatenated in the
  order of delivery, with type \<open>video/webm\<close>. A further \<open>stopRecording\<close> resolves
  with \<open>null\<close>, whatever is delivered in between: the session yields one payload.
\<close>

theorem stopRecording_payload:
  assumes "context2d env" "MediaRecorder_throws env = None" "start_throws env = None"
  shows "fst (stopRecording remaining (deliver chunks (snd (startRecording env s)))) =
           Resolved (Some \<lparr>blob_data = concat (map blob_data (filter (\<lambda>b. blob_size b > 0) (chunks @ remaining))),
                            blob_type = ''video/webm''\<rparr>)
         \<and> fst (stopRecording again
                  (deliver late (snd (stopRecording remaining (deliver chunks (snd (startRecording env s))))))) =
           Resolved None"
proof -
  let ?s1 = "snd (startRecording env s)"
  let ?s2 = "deliver chunks ?s1"
  have s1: "isRecording ?s1"
    "mediaRecorderRef ?s1 = Some \<lparr>rec_state = Recording, frameInterval = nextTimer s\<rparr>"
    "chunksRef ?s1 = []"
    using assms by (simp_all add: startRecording_ok)
  have s2: "isRecording ?s2"
    "mediaRecorderRef ?s2 = Some \<lparr>rec_state = Recording, frameInterval = nextTimer s\<rparr>"
    "chunksRef ?s2 = filter (\<lambda>b. blob_size b > 0) chunks"
    using s1 by (simp_all add: isRecording_deliver mediaRecorderRef_deliver chunksRef_deliver)
  have "fst (stopRecording remaining ?s2) =
          Resolved (Some (new_Blob (chunksRef ?s2 @ filter (\<lambda>b. blob_size b > 0) remaining) ''video/webm''))"
    by (rule stopRecording_recording(1) [OF s2(1) s2(2)]) simp
  then have first: "fst (stopRecording remaining ?s2) =
      Resolved (Some \<lparr>blob_data = concat (map blob_data (filter (\<lambda>b. blob_size b > 0) (chunks @ remaining))),
                            blob_type = ''video/webm''\<rparr>)"
    by (simp add: s2(3) new_Blob_def)
  have "isRecording (snd (stopRecording remaining ?s2)) = False"
    by (rule stopRecording_recording(2) [OF s2(1) s2(2)]) simp
  then have "\<not> isRecording (deliver late (snd (stopRecording remaining ?s2)))"
    by (simp add: isRecording_deliver)
  then have "stopRecording again (deliver late (snd (stopRecording remaining ?s2))) =
               (Resolved None, deliver late (snd (stopRecording remaining ?s2)))"
    by (auto simp: stopRecording_def split: option.splits)
  with first show ?thesis by simp
qed

theorem stopRecording_payload_witness:
  "context2d env_ok \<and> MediaRecorder_throws env_ok = None \<and> start_throws env_ok = None \<and>
   fst (stopRecording [clip_b] (deliver [clip_a, clip_empty] (snd (startRecording env_ok initial_recorder)))) =
     Resolved (Some \<lparr>blob_data = [26, 69, 223, 163, 31, 67, 182, 117, 1], blob_type = ''video/webm''\<rparr>)"
  using stopRecording_payload [of env_ok "[clip_b]" "[clip_a, clip_empty]" initial_recorder "[]" "[]"]
  by (simp add: env_ok_def clip_a_def clip_b_def clip_empty_def blob_size_def)

text \<open>
  C2, as stated, fails. \<open>startRecording\<close> has no guard on \<open>isRecording\<close>: called a
  second time during a session that has buffered one chunk, it resolves without an
  error and the chunk is gone from the buffer.
\<close>

theorem startRecording_twice_counterexample:
  "fst (startRecording env_ok (deliver [clip_a] (snd (startRecording env_ok initial_recorder)))) = Resolved ()
   \<and> chunksRef (deliver [clip_a] (snd (startRecording env_ok initial_recorder))) = [clip_a]
   \<and> chunksRef (snd (startRecording env_ok (deliver [clip_a] (snd (startRecording env_ok initial_recorder))))) = []"
  by (simp add: startRecording_ok env_ok_def chunksRef_deliver clip_a_def blob_size_def)

text \<open>
  C2, amended. \<open>startRecording\<close> called while a session is recording never fails: its
  promise resolves. When the platform calls succeed it begins a new session in place
  of the first: one more tick timer is scheduled beside the running ones, the chunk
  buffer is emptied, the stored recorder is replaced by the new, recording one, and
  \<open>isRecording\<close> stays true.
\<close>

theorem startRecording_while_recording:
  assumes "isRecording s" "mediaRecorderRef s = Some r"
  shows "fst (startRecording env s) = Resolved () \<and>
         (context2d env \<and> MediaRecorder_throws env = None \<and> start_throws env = None \<longrightarrow>
            snd (startRecording env s) =
              s\<lparr>intervals := nextTimer s # intervals s, nextTimer := Suc (nextTimer s),
                chunksRef := [],
                mediaRecorderRef := Some \<lparr>rec_state = Recording, frameInterval = nextTimer s\<rparr>,
                isRecording := True\<rparr>)"
  by (simp add: startRecording_resolves startRecording_ok)

theorem startRecording_while_recording_witness:
  "isRecording (snd (startRecording env_ok initial_recorder)) \<and>
   mediaRecorderRef (snd (startRecording env_ok initial_recorder)) =
     Some \<lparr>rec_state = Recording, frameInterval = 1\<rparr> \<and>
   startRecording env_ok (snd (startRecording env_ok initial_recorder)) =
     (Resolved (),
      \<lparr>isRecording = True,
       mediaRecorderRef = Some \<lparr>rec_state = Recording, frameInterval = 2\<rparr>,
       chunksRef = [], intervals = [2, 1], nextTimer = 3, console = []\<rparr>)"
  using startRecording_while_recording
    [of "snd (startRecording env_ok initial_recorder)"
        "\<lparr>rec_state = Recording, frameInterval = 1\<rparr>" env_ok]
  by (simp add: startRecording_ok env_ok_def initial_recorder_def)

text \<open>
  C7, as stated, fails. When the background image does not load, the variant of
  \<open>startRecording\<close> that awaits it resolves normally: the error goes to the console
  and not to the caller, and the hook records no failure.
\<close>

theorem startRecording_bg_image_error_counterexample:
  "startRecording_bg env_no_image initial_recorder =
     (Resolved (), initial_recorder\<lparr>console := [Error ''image load failed'']\<rparr>)"
  by (simp add: startRecording_bg_def startRecording_bg_try_def env_no_image_def env_ok_def
        console_error_def initial_recorder_def)

text \<open>
  C7, amended. When the background image fails to load at start time,
  \<open>startRecording\<close> catches the error, writes it to the console and resolves: no
  error reaches the caller and the caller is not crashed. No tick timer is scheduled,
  no recorder is created, and \<open>isRecording\<close>, the stored recorder and the chunk
  buffer keep their values.
\<close>

theorem startRecording_bg_image_error:
  "context2d env \<Longrightarrow> backgroundImage_onerror env = Some e \<Longrightarrow>
   startRecording_bg env s = (Resolved (), s\<lparr>console := console s @ [e]\<rparr>)"
  by (simp add: startRecording_bg_def startRecording_bg_try_def console_error_def)

theorem startRecording_bg_image_error_witness:
  "context2d env_no_image \<and>
   backgroundImage_onerror env_no_image = Some (Error ''image load failed'') \<and>
   startRecording_bg env_no_image (snd (startRecording_bg env_ok initial_recorder)) =
     (Resolved (),
      \<lparr>isRecording = True,
       mediaRecorderRef = Some \<lparr>rec_state = Recording, frameInterval = 1\<rparr>,
       chunksRef = [], intervals = [1], nextTimer = 2,
       console = [Error ''image load failed'']\<rparr>)"
  using startRecording_bg_image_error
    [of env_no_image "Error ''image load failed''" "snd (startRecording_bg env_ok initial_recorder)"]
  by (simp add: startRecording_bg_def startRecording_bg_try_def start_session_ok
        env_no_image_def env_ok_def initial_recorder_def)

section \<open>Properties of the converter\<close>

lemma progressLog_on_progress:
  "progressLog (foldl (\<lambda>s' p. on_progress p s') s signals) =
     progressLog s @ map (\<lambda>p. Math_round (p * 100)) signals"
  by (induction signals arbitrary: s) (simp_all add: on_progress_def setProgress_def)

lemma progressLog_load: "progressLog (snd (load outcome s)) = progressLog s"
  by (simp add: load_def Let_def split: option.splits)

lemma progressLog_convert_try:
  "\<exists>signals. progressLog (snd (convert_try eng b s)) =
                progressLog s @ map (\<lambda>p. Math_round (p * 100)) signals
     \<and> (signals = [] \<or> (\<exists>fs. signals = fst (exec eng transcode_args fs)))"
proof (cases "load (load_throws eng) s")
  case (Pair r s1)
  have log1: "progressLog s1 = progressLog s"
    using progressLog_load [of "load_throws eng" s] Pair by simp
  show ?thesis
  proof (cases r)
    case (Inl e)
    with Pair log1 show ?thesis by (simp add: convert_try_def)
  next
    case (Inr ffmpeg)
    let ?s2 = "writeFile ''input.webm'' (blob_data b) s1"
    obtain signals result where ex: "exec eng transcode_args (files ?s2) = (signals, result)"
      by (cases "exec eng transcode_args (files ?s2)")
    have "progressLog (snd (convert_try eng b s)) =
            progressLog s @ map (\<lambda>p. Math_round (p * 100)) signals"
      using Pair Inr ex log1
      by (simp add: convert_try_def Let_def progressLog_on_progress writeFile_def
            split: exec_result.splits sum.splits)
    moreover have "signals = fst (exec eng transcode_args (files ?s2))"
      using ex by simp
    ultimately show ?thesis by blast
  qed
qed

lemma reported_convert:
  "\<exists>signals. reported s (snd (convertWebMToMp4 eng b s)) = 0 # map (\<lambda>p. Math_round (p * 100)) signals
     \<and> (signals = [] \<or> (\<exists>fs. signals = fst (exec eng transcode_args fs)))"
proof -
  let ?s1 = "setProgress 0 (setIsConverting True s)"
  obtain signals where sig: "progressLog (snd (convert_try eng b ?s1)) =
                progressLog ?s1 @ map (\<lambda>p. Math_round (p * 100)) signals"
     "signals = [] \<or> (\<exists>fs. signals = fst (exec eng transcode_args fs))"
    using progressLog_convert_try [of eng b ?s1] by blast
  have "progressLog (snd (convertWebMToMp4 eng b s)) = progressLog (snd (convert_try eng b ?s1))"
    by (simp add: convertWebMToMp4_def Let_def setIsConverting_def split: prod.splits)
  then have "reported s (snd (convertWebMToMp4 eng b s)) = 0 # map (\<lambda>p. Math_round (p * 100)) signals"
    using sig(1) by (simp add: reported_def setProgress_def setIsConverting_def)
  with sig(2) show ?thesis by blast
qed























text \<open>
  C10. Every call of \<open>convertWebMToMp4\<close> settles, resolved or rejected; the first
  value it reports is 0, and \<open>isConverting\<close> is false in the state it leaves.
\<close>

theorem convert_finally:
  "fst (convertWebMToMp4 eng b s) \<noteq> Pending
   \<and> \<not> isConverting (snd (convertWebMToMp4 eng b s))
   \<and> reported s (snd (convertWebMToMp4 eng b s)) \<noteq> []
   \<and> hd (reported s (snd (convertWebMToMp4 eng b s))) = 0"
proof -
  have "fst (convertWebMToMp4 eng b s) \<noteq> Pending"
    by (simp add: convertWebMToMp4_def Let_def split: prod.splits sum.splits)
  moreover have "\<not> isConverting (snd (convertWebMToMp4 eng b s))"
    by (simp add: convertWebMToMp4_def Let_def setIsConverting_def split: prod.splits)
  moreover have "reported s (snd (convertWebMToMp4 eng b s)) \<noteq> [] \<and> hd (reported s (snd (convertWebMToMp4 eng b s))) = 0"
    using reported_convert [of s eng b] by auto
  ultimately show ?thesis by simp
qed

section \<open>Properties of the page\<close>

text \<open>
  C5. When a clip has been recorded and its conversion is rejected,
  \<open>handleDownload\<close> hands exactly that clip, unconverted, to \<open>downloadRecording\<close>
  under a name ending in \<open>.webm\<close>.
\<close>

theorem handleDownload_fallback:
  assumes "videoBlob p = Some vb"
    and "fst (convertWebMToMp4 eng vb (converter p)) = Rejected e"
  shows "downloads (handleDownload eng iso_string p) =
           downloads p @ [(vb, ''typewriter-animation-'' @ timestamp iso_string @ ''.webm'')]"
proof -
  obtain c where r: "convertWebMToMp4 eng vb (converter p) = (Rejected e, c)"
    using assms(2) by (cases "convertWebMToMp4 eng vb (converter p)") simp
  show ?thesis
    using assms(1) r
    by (simp add: handleDownload_def show_toast_def downloadRecording_def Let_def)
qed

theorem handleDownload_fallback_witness:
  "videoBlob (initial_page\<lparr>videoBlob := Some clip_a\<rparr>) = Some clip_a \<and>
   fst (convertWebMToMp4 engine_unloadable clip_a (converter (initial_page\<lparr>videoBlob := Some clip_a\<rparr>))) =
     Rejected (Error ''failed to import ffmpeg-core.js'') \<and>
   downloads (handleDownload engine_unloadable ''2025-01-02T03:04:05.678Z'' (initial_page\<lparr>videoBlob := Some clip_a\<rparr>)) =
     [(clip_a, ''typewriter-animation-2025-01-02T03-04-05-678Z.webm'')]"
proof -
  have r: "fst (convertWebMToMp4 engine_unloadable clip_a (converter (initial_page\<lparr>videoBlob := Some clip_a\<rparr>))) =
     Rejected (Error ''failed to import ffmpeg-core.js'')"
    by (simp add: convertWebMToMp4_def convert_try_def load_def setProgress_def setIsConverting_def
          initial_page_def initial_converter_def engine_unloadable_def engine_a_def Let_def)
  have v: "videoBlob (initial_page\<lparr>videoBlob := Some clip_a\<rparr>) = Some clip_a" by simp
  from handleDownload_fallback [OF v r, of "''2025-01-02T03:04:05.678Z''"] r v
  show ?thesis by (simp add: timestamp_def initial_page_def)
qed

text \<open>
  C9. A change of the message field stores the first 200 code units of the new value,
  so after any sequence of changes the stored message has at most 200 code units.
\<close>

theorem text_at_most_maxChars:
  "text_st (onChange target_value p) = take 200 target_value
   \<and> length (text_st (foldl (\<lambda>p' v. onChange v p') initial_page changes)) \<le> 200"
proof -
  have "length (text_st (foldl (\<lambda>p' v. onChange v p') p0 changes)) \<le> 200"
    if "length (text_st p0) \<le> 200" for p0
    using that by (induction changes arbitrary: p0) (simp_all add: onChange_def maxChars_def)
  then show ?thesis by (simp add: onChange_def maxChars_def initial_page_def)
qed

end
